theory Spec2Isabelle
  imports Complex_Main "HOL-Library.AList"
begin

section \<open>Python values and exceptions\<close>

text \<open>
  The handlers of \<^verbatim>\<open>pywps/inout/basic.py\<close> store arbitrary Python objects. The model keeps
  the kinds of object the handlers distinguish: \<^verbatim>\<open>None\<close>, text, integers, floats, booleans
  and stream objects. Floats stay abstract (type \<open>'f\<close>); a stream object is a handle into the
  table of open streams of the world (see below).
\<close>

datatype 'f pyval =
    PNone
  | PStr string
  | PInt int
  | PFloat 'f
  | PBool bool
  | PStream nat

text \<open>
  Every exception the modelled code can raise. \<open>PyException\<close> is the plain
  \<^verbatim>\<open>Exception(message)\<close>; \<open>InvalidParameterValue\<close> carries the three values formatted
  into its message (mime type, encoding, schema).
\<close>

datatype py_error =
    PyException string
  | ValueError
  | TypeError
  | AttributeError
  | IOError
  | OSError
  | InvalidParameterValue string string string

text \<open>Truth value of an attribute that is \<^verbatim>\<open>None\<close> or a string: \<^verbatim>\<open>None\<close> and \<^verbatim>\<open>''\<close> are false.\<close>

fun truthy :: "string option \<Rightarrow> bool" where
  "truthy None = False"
| "truthy (Some s) = (s \<noteq> [])"

section \<open>Format (pywps/inout/formats.py)\<close>

text \<open>
  The attributes \<^verbatim>\<open>_mime_type\<close>, \<^verbatim>\<open>_encoding\<close>, \<^verbatim>\<open>_schema\<close> are the fields
  \<open>priv_mime_type\<close>, \<open>priv_encoding\<close>, \<open>priv_schema\<close> (an Isabelle name cannot start with
  an underscore). \<open>validate\<close> is an opaque capability of type \<open>'v\<close>.
\<close>

record 'v Format =
  priv_mime_type :: string
  priv_encoding :: "string option"
  priv_schema :: "string option"
  validate :: "'v option"
  extension :: "string option"

text \<open>\<^verbatim>\<open>Format.__init__(mime_type, schema=None, encoding=None, validate=None, extension=None)\<close>\<close>

definition Format_init ::
  "string \<Rightarrow> string option \<Rightarrow> string option \<Rightarrow> 'v option \<Rightarrow> string option \<Rightarrow> 'v Format" where
  "Format_init mime_type_arg schema_arg encoding_arg validate_arg extension_arg =
     \<lparr>priv_mime_type = mime_type_arg, priv_encoding = encoding_arg, priv_schema = schema_arg,
      validate = validate_arg, extension = extension_arg\<rparr>"

text \<open>The property getters.\<close>

definition mime_type :: "('v, 'm) Format_scheme \<Rightarrow> string" where
  "mime_type self = priv_mime_type self"

definition encoding :: "('v, 'm) Format_scheme \<Rightarrow> string" where
  "encoding self =
     (if truthy (priv_encoding self) then the (priv_encoding self) else [])"

definition schema :: "('v, 'm) Format_scheme \<Rightarrow> string" where
  "schema self =
     (if truthy (priv_schema self) then the (priv_schema self) else [])"

text \<open>\<^verbatim>\<open>Format.same_as(self, frmt)\<close>\<close>

definition same_as :: "'v Format \<Rightarrow> 'v Format \<Rightarrow> bool" where
  "same_as self frmt \<longleftrightarrow>
     mime_type frmt = mime_type self \<and>
     encoding frmt = encoding self \<and>
     schema frmt = schema self"

section \<open>BasicComplex (pywps/inout/basic.py)\<close>

text \<open>
  \<^verbatim>\<open>_data_format\<close> is the field \<open>priv_data_format\<close>. \<^verbatim>\<open>supported_formats\<close> is \<^verbatim>\<open>None\<close>
  (the constructor's default) or a list of formats.
\<close>

record 'v BasicComplex =
  priv_data_format :: "'v Format option"
  supported_formats :: "'v Format list option"

definition data_format :: "'v BasicComplex \<Rightarrow> 'v Format option" where
  "data_format self = priv_data_format self"

text \<open>
  \<^verbatim>\<open>_is_supported\<close>: the loop over \<^verbatim>\<open>self.supported_formats\<close>, returning at the first match.
  Iterating over \<^verbatim>\<open>None\<close> raises \<^verbatim>\<open>TypeError\<close>.
\<close>

fun is_supported_loop :: "'v Format list \<Rightarrow> 'v Format \<Rightarrow> bool" where
  "is_supported_loop [] data_format_arg = False"
| "is_supported_loop (frmt # rest) data_format_arg =
     (if same_as frmt data_format_arg then True else is_supported_loop rest data_format_arg)"

definition is_supported :: "'v BasicComplex \<Rightarrow> 'v Format \<Rightarrow> py_error + bool" where
  "is_supported self data_format_arg =
     (case supported_formats self of
        None \<Rightarrow> Inl TypeError
      | Some fs \<Rightarrow> Inr (is_supported_loop fs data_format_arg))"

text \<open>
  The \<^verbatim>\<open>data_format\<close> setter. It returns the object after the call together with the
  outcome, so that what a raising call leaves behind is visible.
\<close>

definition set_data_format ::
  "'v BasicComplex \<Rightarrow> 'v Format \<Rightarrow> 'v BasicComplex \<times> (py_error + unit)" where
  "set_data_format self data_format_arg =
     (case is_supported self data_format_arg of
        Inl e \<Rightarrow> (self, Inl e)
      | Inr True \<Rightarrow> (self\<lparr>priv_data_format := Some data_format_arg\<rparr>, Inr ())
      | Inr False \<Rightarrow>
          (self, Inl (InvalidParameterValue (mime_type data_format_arg)
                        (encoding data_format_arg) (schema data_format_arg))))"

text \<open>
  \<^verbatim>\<open>BasicComplex.__init__(data_format=None, supported_formats=None)\<close>. A constructor that
  raises yields no object. A \<^verbatim>\<open>Format\<close> object is always true in a condition, so
  \<^verbatim>\<open>if data_format:\<close> tests for \<^verbatim>\<open>None\<close> only; \<^verbatim>\<open>if self.supported_formats:\<close> is
  false for \<^verbatim>\<open>None\<close> and for the empty list.
\<close>

definition BasicComplex_init ::
  "'v Format option \<Rightarrow> 'v Format list option \<Rightarrow> py_error + 'v BasicComplex" where
  "BasicComplex_init data_format_arg supported_formats_arg =
     (let self = \<lparr>priv_data_format = None, supported_formats = supported_formats_arg\<rparr>;
          step1 = (case supported_formats_arg of
                     Some (first # _) \<Rightarrow> set_data_format self first
                   | _ \<Rightarrow> (self, Inr ()))
      in case step1 of
           (_, Inl e) \<Rightarrow> Inl e
         | (self1, Inr _) \<Rightarrow>
             (case data_format_arg of
                None \<Rightarrow> Inr self1
              | Some d \<Rightarrow>
                  (case set_data_format self1 d of
                     (_, Inl e) \<Rightarrow> Inl e
                   | (self2, Inr _) \<Rightarrow> Inr self2)))"


section \<open>The world outside the handlers\<close>

text \<open>
  The handlers act on the file system and on stream objects. The world holds
  \<^item> \<open>files\<close>: the regular files, as an association list from path to contents;
  \<^item> \<open>dirs\<close>: the directories that exist;
  \<^item> \<open>streams\<close>: for every stream object ever opened, the text that is still unread; the
    value \<open>PStream k\<close> is the stream at index \<open>k\<close>.
  Text read and written is \<open>string\<close>, as for Python 2's \<^verbatim>\<open>str\<close>, which the doctests of
  \<^verbatim>\<open>IOHandler\<close> use. Failures of the operating system other than a missing file or a
  missing directory (permissions, a full disk) are not modelled.
\<close>

record world =
  files :: "(string \<times> string) list"
  dirs :: "string list"
  streams :: "string list"

definition file_exists :: "world \<Rightarrow> string \<Rightarrow> bool" where
  "file_exists w p \<longleftrightarrow> p \<in> fst ` set (files w)"

text \<open>\<^verbatim>\<open>os.path.exists\<close>\<close>

definition path_exists :: "world \<Rightarrow> string \<Rightarrow> bool" where
  "path_exists w p \<longleftrightarrow> file_exists w p \<or> p \<in> set (dirs w)"

text \<open>\<^verbatim>\<open>os.makedirs\<close>: only the directory itself is recorded, not its parents.\<close>

definition makedirs :: "world \<Rightarrow> string \<Rightarrow> world" where
  "makedirs w p = w\<lparr>dirs := p # dirs w\<rparr>"

definition read_file :: "world \<Rightarrow> string \<Rightarrow> string option" where
  "read_file w p = map_of (files w) p"

text \<open>Writing the whole contents of an open file and closing it.\<close>

definition write_file :: "world \<Rightarrow> string \<Rightarrow> string \<Rightarrow> world" where
  "write_file w p c = w\<lparr>files := AList.update p c (files w)\<rparr>"

text \<open>
  \<^verbatim>\<open>tempfile.mkstemp(dir=d)\<close> creates an empty file under a name that no file has, in
  directory \<open>d\<close> or, for \<^verbatim>\<open>None\<close>, in the system's temporary directory, and returns the
  name. The name chosen here is longer than every existing path, hence unused. A directory
  that does not exist makes it raise \<^verbatim>\<open>OSError\<close>. (The file descriptor it also returns
  is never used by the caller.)
\<close>

definition fresh_name :: "string \<Rightarrow> string list \<Rightarrow> string" where
  "fresh_name d used = d @ ''/tmp'' @ replicate (length (concat used)) (CHR ''x'')"

definition mkstemp :: "world \<Rightarrow> string option \<Rightarrow> world \<times> (py_error + string)" where
  "mkstemp w dir =
     (case dir of
        None \<Rightarrow>
          (let name = fresh_name ''/tmp'' (map fst (files w))
           in (w\<lparr>files := (name, []) # files w\<rparr>, Inr name))
      | Some d \<Rightarrow>
          if d \<in> set (dirs w)
          then (let name = fresh_name d (map fst (files w))
                in (w\<lparr>files := (name, []) # files w\<rparr>, Inr name))
          else (w, Inl OSError))"

text \<open>
  \<^verbatim>\<open>obj.read()\<close>: a stream yields its unread text and is exhausted afterwards; a handle
  that names no open stream is a closed one (\<^verbatim>\<open>ValueError\<close>); any other object of the
  model has no \<^verbatim>\<open>read\<close> attribute.
\<close>

definition stream_read :: "world \<Rightarrow> 'f pyval \<Rightarrow> world \<times> (py_error + string)" where
  "stream_read w obj =
     (case obj of
        PStream k \<Rightarrow>
          if k < length (streams w)
          then (w\<lparr>streams := (streams w)[k := []]\<rparr>, Inr (streams w ! k))
          else (w, Inl ValueError)
      | _ \<Rightarrow> (w, Inl AttributeError))"

text \<open>A new stream object over the given text (\<^verbatim>\<open>StringIO(text)\<close>, \<^verbatim>\<open>FileIO(path)\<close>).\<close>

definition new_stream :: "world \<Rightarrow> string \<Rightarrow> world \<times> 'f pyval" where
  "new_stream w c = (w\<lparr>streams := streams w @ [c]\<rparr>, PStream (length (streams w)))"

text \<open>
  What the module imports and this repository's sources do not define:
  \<^verbatim>\<open>LITERAL_DATA_TYPES\<close> (of \<^verbatim>\<open>pywps.inout.literaltypes\<close>), \<^verbatim>\<open>text_type\<close> (of
  \<^verbatim>\<open>pywps._compat\<close>), the builtins \<^verbatim>\<open>int\<close> and \<^verbatim>\<open>float\<close>, and
  \<^verbatim>\<open>os.path.abspath\<close>. They are parameters of the model. \<open>py_int\<close> and \<open>py_float\<close> return
  the exception the builtin raises: for a text that is not a number, Python raises
  \<^verbatim>\<open>ValueError\<close>.
\<close>

record 'f py_env =
  LITERAL_DATA_TYPES :: "string list"
  text_type :: "'f pyval \<Rightarrow> string"
  py_int :: "'f pyval \<Rightarrow> py_error + int"
  py_float :: "'f pyval \<Rightarrow> py_error + 'f"
  abspath :: "string \<Rightarrow> string"

text \<open>\<^verbatim>\<open>str.lower()\<close> on the letters A to Z.\<close>

definition lower_char :: "char \<Rightarrow> char" where
  "lower_char c =
     (case map_of (zip ''ABCDEFGHIJKLMNOPQRSTUVWXYZ'' ''abcdefghijklmnopqrstuvwxyz'') c of
        Some d \<Rightarrow> d
      | None \<Rightarrow> c)"

definition lower :: "string \<Rightarrow> string" where
  "lower s = map lower_char s"

section \<open>IOHandler (pywps/inout/basic.py)\<close>

datatype SOURCE_TYPE = MEMORY | FILE | STREAM | DATA

text \<open>
  \<^verbatim>\<open>_tempfile\<close> and \<^verbatim>\<open>_workdir\<close> are the fields \<open>priv_tempfile\<close> and \<open>priv_workdir\<close>.
  Every operation takes the handler (and the world, where it reads or changes it) and returns
  the ones after the call; an operation that can raise returns its outcome as
  \<open>py_error + result\<close>, next to the state it leaves behind.
\<close>

record 'f IOHandler =
  source_type :: "SOURCE_TYPE option"
  source :: "'f pyval"
  priv_tempfile :: "string option"
  priv_workdir :: "string option"

definition set_workdir ::
  "world \<Rightarrow> ('f, 'm) IOHandler_scheme \<Rightarrow> string option \<Rightarrow> world \<times> ('f, 'm) IOHandler_scheme" where
  "set_workdir w self workdirpath =
     (let w' = (case workdirpath of
                  None \<Rightarrow> w
                | Some p \<Rightarrow> if \<not> path_exists w p then makedirs w p else w)
      in (w', self\<lparr>priv_workdir := workdirpath\<rparr>))"

definition get_workdir :: "('f, 'm) IOHandler_scheme \<Rightarrow> string option" where
  "get_workdir self = priv_workdir self"

text \<open>\<^verbatim>\<open>IOHandler.__init__(workdir=None)\<close>\<close>

definition IOHandler_init :: "world \<Rightarrow> string option \<Rightarrow> world \<times> 'f IOHandler" where
  "IOHandler_init w workdir_arg =
     set_workdir w
       \<lparr>source_type = None, source = PNone, priv_tempfile = None, priv_workdir = None\<rparr>
       workdir_arg"

definition set_file ::
  "'f py_env \<Rightarrow> ('f, 'm) IOHandler_scheme \<Rightarrow> string \<Rightarrow> ('f, 'm) IOHandler_scheme" where
  "set_file env self filename =
     self\<lparr>source_type := Some FILE, source := PStr (abspath env filename)\<rparr>"

definition set_memory_object ::
  "('f, 'm) IOHandler_scheme \<Rightarrow> 'f pyval \<Rightarrow> ('f, 'm) IOHandler_scheme" where
  "set_memory_object self memory_object = self\<lparr>source_type := Some MEMORY\<rparr>"

definition set_stream ::
  "('f, 'm) IOHandler_scheme \<Rightarrow> 'f pyval \<Rightarrow> ('f, 'm) IOHandler_scheme" where
  "set_stream self stream = self\<lparr>source_type := Some STREAM, source := stream\<rparr>"

definition IOHandler_set_data ::
  "('f, 'm) IOHandler_scheme \<Rightarrow> 'f pyval \<Rightarrow> ('f, 'm) IOHandler_scheme" where
  "IOHandler_set_data self data = self\<lparr>source_type := Some DATA, source := data\<rparr>"

text \<open>
  \<^verbatim>\<open>get_file\<close>. \<^verbatim>\<open>open(name, 'w')\<close> empties the file; \<^verbatim>\<open>write\<close> accepts text only and
  raises \<^verbatim>\<open>TypeError\<close> on any other object, before \<^verbatim>\<open>close()\<close> and before
  \<^verbatim>\<open>_tempfile\<close> is assigned. With no branch taken the method returns \<^verbatim>\<open>None\<close>.
\<close>

definition get_file ::
  "world \<Rightarrow> ('f, 'm) IOHandler_scheme \<Rightarrow>
     world \<times> ('f, 'm) IOHandler_scheme \<times> (py_error + 'f pyval)" where
  "get_file w self =
     (if source_type self = Some FILE then (w, self, Inr (source self))
      else if source_type self = Some STREAM \<or> source_type self = Some DATA then
        (if truthy (priv_tempfile self) then (w, self, Inr (PStr (the (priv_tempfile self))))
         else
           (case mkstemp w (get_workdir self) of
              (w1, Inl e) \<Rightarrow> (w1, self, Inl e)
            | (w1, Inr stream_file_name) \<Rightarrow>
                (let w2 = write_file w1 stream_file_name [] in
                 if source_type self = Some STREAM then
                   (case stream_read w2 (source self) of
                      (w3, Inl e) \<Rightarrow> (w3, self, Inl e)
                    | (w3, Inr c) \<Rightarrow>
                        (write_file w3 stream_file_name c,
                         self\<lparr>priv_tempfile := Some stream_file_name\<rparr>,
                         Inr (PStr stream_file_name)))
                 else
                   (case source self of
                      PStr c \<Rightarrow>
                        (write_file w2 stream_file_name c,
                         self\<lparr>priv_tempfile := Some stream_file_name\<rparr>,
                         Inr (PStr stream_file_name))
                    | _ \<Rightarrow> (w2, self, Inl TypeError)))))
      else (w, self, Inr PNone))"

definition get_memory_object :: "('f, 'm) IOHandler_scheme \<Rightarrow> py_error + 'f pyval" where
  "get_memory_object self =
     Inl (PyException
       ''setmemory_object not implemented, Soeren promissed to implement at WPS Workshop on 23rd of January 2014'')"

text \<open>
  \<^verbatim>\<open>get_stream\<close>. Opening a path that names no file raises \<^verbatim>\<open>IOError\<close>; a source that
  is not a path cannot be opened.
\<close>

definition get_stream ::
  "'f py_env \<Rightarrow> world \<Rightarrow> ('f, 'm) IOHandler_scheme \<Rightarrow> world \<times> (py_error + 'f pyval)" where
  "get_stream env w self =
     (if source_type self = Some FILE then
        (case source self of
           PStr p \<Rightarrow>
             (case read_file w p of
                None \<Rightarrow> (w, Inl IOError)
              | Some c \<Rightarrow> (let (w1, s) = new_stream w c in (w1, Inr s)))
         | _ \<Rightarrow> (w, Inl TypeError))
      else if source_type self = Some STREAM then (w, Inr (source self))
      else if source_type self = Some DATA then
        (let (w1, s) = new_stream w (text_type env (source self)) in (w1, Inr s))
      else (w, Inr PNone))"

definition get_data ::
  "world \<Rightarrow> ('f, 'm) IOHandler_scheme \<Rightarrow> world \<times> (py_error + 'f pyval)" where
  "get_data w self =
     (if source_type self = Some FILE then
        (case source self of
           PStr p \<Rightarrow>
             (case read_file w p of
                None \<Rightarrow> (w, Inl IOError)
              | Some content \<Rightarrow> (w, Inr (PStr content)))
         | _ \<Rightarrow> (w, Inl TypeError))
      else if source_type self = Some STREAM then
        (case stream_read w (source self) of
           (w1, Inl e) \<Rightarrow> (w1, Inl e)
         | (w1, Inr c) \<Rightarrow> (w1, Inr (PStr c)))
      else if source_type self = Some DATA then (w, Inr (source self))
      else (w, Inr PNone))"

section \<open>SimpleHandler (pywps/inout/basic.py)\<close>

record ('f, 'v) SimpleHandler = "'f IOHandler" +
  data_type :: "string option"
  priv_validator :: "'v option"

text \<open>\<^verbatim>\<open>SimpleHandler.__init__(workdir=None, data_type=None)\<close>\<close>

definition SimpleHandler_init ::
  "world \<Rightarrow> string option \<Rightarrow> string option \<Rightarrow> world \<times> ('f, 'v) SimpleHandler" where
  "SimpleHandler_init w workdir_arg data_type_arg =
     (let (w1, base) = IOHandler_init w workdir_arg
      in (w1, \<lparr>source_type = source_type base, source = source base,
                priv_tempfile = priv_tempfile base, priv_workdir = priv_workdir base,
                data_type = data_type_arg, priv_validator = None\<rparr>))"

definition SimpleHandler_get_data ::
  "world \<Rightarrow> ('f, 'v, 'm) SimpleHandler_scheme \<Rightarrow> world \<times> (py_error + 'f pyval)" where
  "SimpleHandler_get_data w self = get_data w self"

text \<open>
  \<^verbatim>\<open>SimpleHandler.set_data\<close>. The call of \<^verbatim>\<open>IOHandler.set_data\<close> stands inside
  \<^verbatim>\<open>if self.data_type.lower() in LITERAL_DATA_TYPES:\<close>, so the two other paths fall
  through and return without storing. \<^verbatim>\<open>data.lower()\<close> exists for text only.
\<close>

definition SimpleHandler_set_data ::
  "'f py_env \<Rightarrow> ('f, 'v, 'm) SimpleHandler_scheme \<Rightarrow> 'f pyval \<Rightarrow>
     ('f, 'v, 'm) SimpleHandler_scheme \<times> (py_error + unit)" where
  "SimpleHandler_set_data env self data =
     (if truthy (data_type self) then
        (let dt = lower (the (data_type self)) in
         if dt \<in> set (LITERAL_DATA_TYPES env) then
           (let converted =
              (if dt = ''string'' then Inr (PStr (text_type env data))
               else if dt = ''integer'' then
                 (case py_int env data of Inl e \<Rightarrow> Inl e | Inr n \<Rightarrow> Inr (PInt n))
               else if dt = ''float'' then
                 (case py_float env data of Inl e \<Rightarrow> Inl e | Inr x \<Rightarrow> Inr (PFloat x))
               else if dt = ''boolean'' then
                 (case data of
                    PStr s \<Rightarrow> if lower s = ''true'' then Inr (PBool True) else Inr (PBool False)
                  | _ \<Rightarrow> Inl AttributeError)
               else Inr data)
            in case converted of
                 Inl e \<Rightarrow> (self, Inl e)
               | Inr data' \<Rightarrow> (IOHandler_set_data self data', Inr ()))
         else (self, Inr ()))
      else (self, Inr ()))"

definition get_validator :: "('f, 'v, 'm) SimpleHandler_scheme \<Rightarrow> 'v option" where
  "get_validator self = priv_validator self"

definition set_validator ::
  "('f, 'v, 'm) SimpleHandler_scheme \<Rightarrow> 'v option \<Rightarrow> ('f, 'v, 'm) SimpleHandler_scheme" where
  "set_validator self v = self\<lparr>priv_validator := v\<rparr>"

section \<open>Example objects\<close>

text \<open>
  Concrete objects on which the theorems below are instantiated: two entries of the
  \<^verbatim>\<open>FORMATS\<close> table, a caller's GML format carrying a validator, negotiators, an
  environment, an empty world and freshly constructed handlers.
\<close>

definition JSON :: "nat Format" where
  "JSON = Format_init ''application/json'' None None None (Some ''.json'')"

definition GML :: "nat Format" where
  "GML = Format_init ''application/gml+xml'' None None None (Some ''.gml'')"

definition GML_validated :: "nat Format" where
  "GML_validated = Format_init ''application/gml+xml'' (Some []) None (Some 7) None"

definition GEOTIFF :: "nat Format" where
  "GEOTIFF = Format_init ''image/tiff; subtype=geotiff'' None None None (Some ''.tiff'')"

definition negotiator :: "nat BasicComplex" where
  "negotiator = \<lparr>priv_data_format = Some JSON, supported_formats = Some [JSON, GML]\<rparr>"

text \<open>What \<^verbatim>\<open>BasicComplex()\<close> constructs, and the same with an empty list of formats.\<close>

definition default_negotiator :: "nat BasicComplex" where
  "default_negotiator = \<lparr>priv_data_format = None, supported_formats = None\<rparr>"

definition empty_negotiator :: "nat BasicComplex" where
  "empty_negotiator = \<lparr>priv_data_format = None, supported_formats = Some []\<rparr>"

text \<open>
  The example environment answers as Python's \<^verbatim>\<open>int\<close>, \<^verbatim>\<open>float\<close> and \<^verbatim>\<open>text_type\<close> do
  on the arguments its definitions list, and is left unspecified (\<open>undefined\<close>) on every
  other argument. \<^verbatim>\<open>int\<close> is given on decimal digits with an optional sign, and on text
  holding a letter, which is never a base-10 integer. Floats are rationals there, and
  \<^verbatim>\<open>float\<close> is given on a few texts whose value a double holds exactly.
\<close>

definition digit_value :: "char \<Rightarrow> int option" where
  "digit_value = map_of (zip ''0123456789'' [0, 1, 2, 3, 4, 5, 6, 7, 8, 9])"

fun parse_digits :: "string \<Rightarrow> int \<Rightarrow> int option" where
  "parse_digits [] acc = Some acc"
| "parse_digits (c # cs) acc =
     (case digit_value c of None \<Rightarrow> None | Some d \<Rightarrow> parse_digits cs (10 * acc + d))"

definition signed_digits :: "string \<Rightarrow> int option" where
  "signed_digits s =
     (case s of
        [] \<Rightarrow> None
      | c # cs \<Rightarrow>
          if c = CHR ''-'' then (if cs = [] then None else map_option uminus (parse_digits cs 0))
          else if c = CHR ''+'' then (if cs = [] then None else parse_digits cs 0)
          else parse_digits s 0)"

definition is_letter :: "char \<Rightarrow> bool" where
  "is_letter c \<longleftrightarrow>
     c \<in> set ''abcdefghijklmnopqrstuvwxyzABCDEFGHIJKLMNOPQRSTUVWXYZ''"

definition example_int :: "rat pyval \<Rightarrow> py_error + int" where
  "example_int v =
     (case v of
        PStr s \<Rightarrow>
          (case signed_digits s of
             Some n \<Rightarrow> Inr n
           | None \<Rightarrow> if list_ex is_letter s then Inl ValueError else undefined)
      | PInt n \<Rightarrow> Inr n
      | PBool b \<Rightarrow> Inr (if b then 1 else 0)
      | PFloat x \<Rightarrow> Inr (if 0 \<le> x then \<lfloor>x\<rfloor> else \<lceil>x\<rceil>)
      | PNone \<Rightarrow> Inl TypeError
      | PStream k \<Rightarrow> Inl TypeError)"

definition float_examples :: "(string \<times> (py_error + rat)) list" where
  "float_examples =
     [(''1.5'', Inr (3 / 2)), (''-2'', Inr (- 2)), (''1e3'', Inr 1000), (''12'', Inr 12),
      (''abc'', Inl ValueError), (''1x'', Inl ValueError), ([], Inl ValueError)]"

definition example_float :: "rat pyval \<Rightarrow> py_error + rat" where
  "example_float v =
     (case v of
        PStr s \<Rightarrow> (case map_of float_examples s of Some r \<Rightarrow> r | None \<Rightarrow> undefined)
      | PFloat x \<Rightarrow> Inr x
      | PInt n \<Rightarrow> if \<bar>n\<bar> \<le> 2 ^ 53 then Inr (of_int n) else undefined
      | PBool b \<Rightarrow> Inr (if b then 1 else 0)
      | PNone \<Rightarrow> Inl TypeError
      | PStream k \<Rightarrow> Inl TypeError)"

definition example_text :: "rat pyval \<Rightarrow> string" where
  "example_text v =
     (case v of
        PStr s \<Rightarrow> s
      | PNone \<Rightarrow> ''None''
      | PBool b \<Rightarrow> (if b then ''True'' else ''False'')
      | _ \<Rightarrow> undefined)"

definition example_env :: "rat py_env" where
  "example_env =
     \<lparr>LITERAL_DATA_TYPES = [''float'', ''boolean'', ''integer'', ''string''],
      text_type = example_text, py_int = example_int, py_float = example_float,
      abspath = (\<lambda>p. p)\<rparr>"

definition empty_world :: world where
  "empty_world = \<lparr>files = [], dirs = [], streams = []\<rparr>"

definition new_handler :: "rat IOHandler" where
  "new_handler = snd (IOHandler_init empty_world None)"

definition untyped_handler :: "(rat, nat) SimpleHandler" where
  "untyped_handler = snd (SimpleHandler_init empty_world None None)"

definition typed_handler :: "string \<Rightarrow> (rat, nat) SimpleHandler" where
  "typed_handler dt = snd (SimpleHandler_init empty_world None (Some dt))"

definition hello_handler :: "rat IOHandler" where
  "hello_handler = IOHandler_set_data new_handler (PStr ''hello'')"

definition hello_world :: world where
  "hello_world = \<lparr>files = [(''/tmp/tmp'', ''hello'')], dirs = [], streams = []\<rparr>"

text \<open>
  The text that a successful \<open>get_file\<close> writes into the file it creates: a text value
  itself, or the unread text of a stream.
\<close>

definition source_text :: "world \<Rightarrow> 'f pyval \<Rightarrow> string" where
  "source_text w v = (case v of PStr c \<Rightarrow> c | PStream k \<Rightarrow> streams w ! k | _ \<Rightarrow> [])"

section \<open>Properties of Format and BasicComplex\<close>

lemma same_as_refl: "same_as a a"
  by (simp add: same_as_def)

lemma same_as_sym: "same_as a b \<longleftrightarrow> same_as b a"
  by (auto simp: same_as_def)

lemma is_supported_loop_iff:
  "is_supported_loop fs r \<longleftrightarrow> (\<exists>f \<in> set fs. same_as f r)"
  by (induction fs) auto

lemma encoding_normalised:
  "encoding self = (case priv_encoding self of None \<Rightarrow> [] | Some e \<Rightarrow> e)"
  by (cases "priv_encoding self") (auto simp: encoding_def)

lemma schema_normalised:
  "schema self = (case priv_schema self of None \<Rightarrow> [] | Some s \<Rightarrow> s)"
  by (cases "priv_schema self") (auto simp: schema_def)


text \<open>
  C6. \<open>same_as\<close> is reflexive and symmetric; formats whose mime types differ are never the
  same; an unset encoding or schema reads as the empty string; and \<open>same_as\<close> holds exactly
  when mime type, encoding and schema are equal once an unset encoding or schema is taken
  as the empty string.
\<close>

theorem same_as_equivalence:
  "same_as a a
   \<and> (same_as a b \<longleftrightarrow> same_as b a)
   \<and> (mime_type a \<noteq> mime_type b \<longrightarrow> \<not> same_as a b)
   \<and> encoding (a\<lparr>priv_encoding := None\<rparr>) = encoding (a\<lparr>priv_encoding := Some []\<rparr>)
   \<and> schema (a\<lparr>priv_schema := None\<rparr>) = schema (a\<lparr>priv_schema := Some []\<rparr>)
   \<and> (same_as a b \<longleftrightarrow>
        priv_mime_type a = priv_mime_type b
        \<and> (case priv_encoding a of None \<Rightarrow> [] | Some e \<Rightarrow> e)
            = (case priv_encoding b of None \<Rightarrow> [] | Some e \<Rightarrow> e)
        \<and> (case priv_schema a of None \<Rightarrow> [] | Some s \<Rightarrow> s)
            = (case priv_schema b of None \<Rightarrow> [] | Some s \<Rightarrow> s))"
proof -
  have "same_as a b \<longleftrightarrow>
        priv_mime_type a = priv_mime_type b
        \<and> (case priv_encoding a of None \<Rightarrow> [] | Some e \<Rightarrow> e)
            = (case priv_encoding b of None \<Rightarrow> [] | Some e \<Rightarrow> e)
        \<and> (case priv_schema a of None \<Rightarrow> [] | Some s \<Rightarrow> s)
            = (case priv_schema b of None \<Rightarrow> [] | Some s \<Rightarrow> s)"
    unfolding same_as_def encoding_normalised schema_normalised mime_type_def by auto
  moreover have "mime_type a \<noteq> mime_type b \<longrightarrow> \<not> same_as a b"
    by (auto simp: same_as_def)
  moreover have "encoding (a\<lparr>priv_encoding := None\<rparr>) = encoding (a\<lparr>priv_encoding := Some []\<rparr>)"
    by (simp add: encoding_def)
  moreover have "schema (a\<lparr>priv_schema := None\<rparr>) = schema (a\<lparr>priv_schema := Some []\<rparr>)"
    by (simp add: schema_def)
  ultimately show ?thesis
    using same_as_refl [of a] same_as_sym [of a b] by blast
qed

theorem same_as_equivalence_witness:
  "mime_type JSON \<noteq> mime_type GML \<and> \<not> same_as JSON GML"
proof -
  have h: "mime_type JSON \<noteq> mime_type GML"
    by (simp add: JSON_def GML_def Format_init_def mime_type_def)
  from same_as_equivalence [of JSON GML]
  have "mime_type JSON \<noteq> mime_type GML \<longrightarrow> \<not> same_as JSON GML" by blast
  with h show ?thesis by blast
qed

text \<open>
  On a \<open>BasicComplex\<close> whose supported formats are a list \<open>S\<close>, the \<open>data_format\<close> setter
  succeeds exactly when the requested format \<open>r\<close> is the same as some member of \<open>S\<close>; it
  then stores \<open>r\<close> itself (validator and extension included). Otherwise it raises
  \<open>InvalidParameterValue\<close> and the object, with its stored format, is as before.
\<close>

lemma set_data_format_accepts_iff:
  assumes "supported_formats self = Some S"
  shows "(snd (set_data_format self r) = Inr () \<longleftrightarrow> (\<exists>f \<in> set S. same_as r f))
         \<and> set_data_format self r =
             (if \<exists>f \<in> set S. same_as r f
              then (self\<lparr>priv_data_format := Some r\<rparr>, Inr ())
              else (self, Inl (InvalidParameterValue (mime_type r) (encoding r) (schema r))))"
proof -
  have eq: "(\<exists>f \<in> set S. same_as f r) \<longleftrightarrow> (\<exists>f \<in> set S. same_as r f)"
    using same_as_sym by blast
  show ?thesis
    using assms
    by (simp add: set_data_format_def is_supported_def is_supported_loop_iff eq)
qed

lemma set_data_format_accepts_iff_example:
  "supported_formats negotiator = Some [JSON, GML]
   \<and> set_data_format negotiator GML_validated
       = (negotiator\<lparr>priv_data_format := Some GML_validated\<rparr>, Inr ())
   \<and> set_data_format negotiator GEOTIFF
       = (negotiator, Inl (InvalidParameterValue ''image/tiff; subtype=geotiff'' [] []))"
proof -
  have s: "supported_formats negotiator = Some [JSON, GML]"
    by (simp add: negotiator_def)
  have y: "\<exists>f \<in> set [JSON, GML]. same_as GML_validated f"
    by (simp add: same_as_def JSON_def GML_def GML_validated_def Format_init_def
        mime_type_def encoding_def schema_def)
  have n: "\<not> (\<exists>f \<in> set [JSON, GML]. same_as GEOTIFF f)"
    by (simp add: same_as_def JSON_def GML_def GEOTIFF_def Format_init_def mime_type_def)
  have m: "mime_type GEOTIFF = ''image/tiff; subtype=geotiff''"
    "encoding GEOTIFF = []" "schema GEOTIFF = []"
    by (simp_all add: GEOTIFF_def Format_init_def mime_type_def encoding_def schema_def)
  from set_data_format_accepts_iff [OF s, of GML_validated]
    set_data_format_accepts_iff [OF s, of GEOTIFF] s y n m
  show ?thesis by simp
qed

text \<open>
  C3. On the negotiator that \<^verbatim>\<open>BasicComplex()\<close> constructs, whose \<open>supported_formats\<close> is
  \<^verbatim>\<open>None\<close>, no format is supported, yet the \<open>data_format\<close> setter raises \<^verbatim>\<open>TypeError\<close>
  and not \<open>InvalidParameterValue\<close>, and so does the constructor when it is given a format.
  With the empty list in place of \<^verbatim>\<open>None\<close>, which the constructor treats alike, the
  setter raises \<open>InvalidParameterValue\<close>.
\<close>

theorem default_negotiator_type_error:
  "BasicComplex_init None None = Inr default_negotiator
   \<and> set_data_format default_negotiator JSON = (default_negotiator, Inl TypeError)
   \<and> BasicComplex_init (Some JSON) None = Inl TypeError
   \<and> BasicComplex_init None (Some []) = Inr empty_negotiator
   \<and> set_data_format empty_negotiator JSON
       = (empty_negotiator, Inl (InvalidParameterValue ''application/json'' [] []))"
  by (simp add: BasicComplex_init_def set_data_format_def is_supported_def
      default_negotiator_def empty_negotiator_def JSON_def Format_init_def
      mime_type_def encoding_def schema_def)

text \<open>
  C4. Constructed with a non-empty list \<open>S\<close> of supported formats and no explicit format, a
  \<open>BasicComplex\<close> has the first element of \<open>S\<close> as its format. With an explicit format \<open>d\<close>
  as well, the constructed object has \<open>d\<close> as its format, never the default; the constructor
  returns whenever \<open>d\<close> is the same as a member of \<open>S\<close> and raises \<open>InvalidParameterValue\<close>
  otherwise.
\<close>

theorem init_default_format:
  assumes "S \<noteq> []"
  shows "BasicComplex_init None (Some S)
           = Inr \<lparr>priv_data_format = Some (hd S), supported_formats = Some S\<rparr>
         \<and> (\<exists>b a. BasicComplex_init None (Some S) = Inr b \<and> data_format b = Some a
                   \<and> same_as a (S ! 0))
         \<and> BasicComplex_init (Some d) (Some S)
           = (if \<exists>f \<in> set S. same_as d f
              then Inr \<lparr>priv_data_format = Some d, supported_formats = Some S\<rparr>
              else Inl (InvalidParameterValue (mime_type d) (encoding d) (schema d)))"
proof -
  obtain f fs where S: "S = f # fs" using assms by (cases S) auto
  have 1: "BasicComplex_init None (Some S)
           = Inr \<lparr>priv_data_format = Some (hd S), supported_formats = Some S\<rparr>"
    by (simp add: S BasicComplex_init_def set_data_format_def is_supported_def same_as_refl)
  have 2: "BasicComplex_init (Some d) (Some S)
           = (if \<exists>f \<in> set S. same_as d f
              then Inr \<lparr>priv_data_format = Some d, supported_formats = Some S\<rparr>
              else Inl (InvalidParameterValue (mime_type d) (encoding d) (schema d)))"
    by (auto simp add: S BasicComplex_init_def set_data_format_def is_supported_def same_as_refl
        is_supported_loop_iff same_as_sym [of d])
  show ?thesis using 1 2 by (simp add: data_format_def S same_as_refl)
qed

theorem init_default_format_witness:
  "[JSON, GML] \<noteq> []
   \<and> BasicComplex_init None (Some [JSON, GML])
       = Inr \<lparr>priv_data_format = Some JSON, supported_formats = Some [JSON, GML]\<rparr>
   \<and> BasicComplex_init (Some GML_validated) (Some [JSON, GML])
       = Inr \<lparr>priv_data_format = Some GML_validated, supported_formats = Some [JSON, GML]\<rparr>"
proof -
  have ne: "[JSON, GML] \<noteq> []" by simp
  have y: "\<exists>f \<in> set [JSON, GML]. same_as GML_validated f"
    by (simp add: same_as_def JSON_def GML_def GML_validated_def Format_init_def
        mime_type_def encoding_def schema_def)
  from init_default_format [OF ne, of GML_validated] y
  show ?thesis by simp
qed

section \<open>Properties of the handlers\<close>

lemma set_data_not_stored:
  "\<not> truthy (data_type self) \<or> lower (the (data_type self)) \<notin> set (LITERAL_DATA_TYPES env)
   \<Longrightarrow> SimpleHandler_set_data env self data = (self, Inr ())"
  by (auto simp: SimpleHandler_set_data_def Let_def)

lemma lower_nonempty: "lower s = c # cs \<Longrightarrow> truthy (Some s)"
  by (cases s) (auto simp: lower_def)

lemma length_le_concat: "u \<in> set used \<Longrightarrow> length u \<le> length (concat used)"
  by (induction used) auto

lemma fresh_name_unused: "fresh_name d used \<notin> set used"
proof
  assume "fresh_name d used \<in> set used"
  then have "length (fresh_name d used) \<le> length (concat used)"
    by (rule length_le_concat)
  then show False by (simp add: fresh_name_def)
qed

lemma fresh_name_nonempty: "fresh_name d used \<noteq> []"
  by (simp add: fresh_name_def)

lemma mkstemp_result:
  assumes "mkstemp w dir = (w1, Inr name)"
  shows "name \<noteq> [] \<and> \<not> file_exists w name \<and> w1 = w\<lparr>files := (name, []) # files w\<rparr>"
proof -
  have "fresh_name d (map fst (files w)) \<notin> fst ` set (files w)" for d
    using fresh_name_unused [of d "map fst (files w)"] by simp
  then show ?thesis
    using assms fresh_name_nonempty
    by (auto simp: mkstemp_def file_exists_def Let_def split: option.splits if_splits)
qed

lemma read_write_file: "read_file (write_file w p c) p = Some c"
  by (simp add: read_file_def write_file_def update_conv')

lemma get_file_cached:
  assumes "source_type self = Some STREAM \<or> source_type self = Some DATA"
    and "priv_tempfile self = Some p" and "p \<noteq> []"
  shows "get_file w self = (w, self, Inr (PStr p))"
  using assms by (auto simp: get_file_def)

lemma get_file_materialises:
  assumes st: "source_type self = Some STREAM \<or> source_type self = Some DATA"
    and nocache: "\<not> truthy (priv_tempfile self)"
    and ok: "get_file w self = (w1, self1, Inr r)"
  shows "\<exists>name. r = PStr name \<and> name \<noteq> [] \<and> \<not> file_exists w name
           \<and> self1 = self\<lparr>priv_tempfile := Some name\<rparr>
           \<and> files w1 = (name, source_text w (source self)) # files w"
proof -
  obtain wm res where mk: "mkstemp w (get_workdir self) = (wm, res)"
    by (cases "mkstemp w (get_workdir self)")
  show ?thesis
  proof (cases res)
    case (Inl e)
    with st nocache ok mk show ?thesis by (auto simp: get_file_def)
  next
    case (Inr name)
    with mk mkstemp_result [of w "get_workdir self" wm name]
    have nm: "name \<noteq> []" "\<not> file_exists w name" and wm: "wm = w\<lparr>files := (name, []) # files w\<rparr>"
      by auto
    from st show ?thesis
    proof
      assume s: "source_type self = Some STREAM"
      with nocache ok mk Inr nm wm show ?thesis
        by (auto simp: get_file_def write_file_def stream_read_def source_text_def Let_def
            split: pyval.splits if_splits)
    next
      assume d: "source_type self = Some DATA"
      with nocache ok mk Inr nm wm show ?thesis
        by (auto simp: get_file_def write_file_def source_text_def Let_def
            split: pyval.splits if_splits)
    qed
  qed
qed

lemma new_handler_eq:
  "new_handler = \<lparr>source_type = None, source = PNone, priv_tempfile = None, priv_workdir = None\<rparr>"
  by (simp add: new_handler_def IOHandler_init_def set_workdir_def)

lemma hello_get_file:
  "get_file empty_world hello_handler
     = (hello_world, hello_handler\<lparr>priv_tempfile := Some ''/tmp/tmp''\<rparr>, Inr (PStr ''/tmp/tmp''))"
  by (simp add: get_file_def get_workdir_def hello_handler_def new_handler_eq
      IOHandler_set_data_def mkstemp_def fresh_name_def write_file_def empty_world_def hello_world_def Let_def)

lemma untyped_handler_eq:
  "untyped_handler = \<lparr>source_type = None, source = PNone, priv_tempfile = None,
     priv_workdir = None, data_type = None, priv_validator = None\<rparr>"
  by (simp add: untyped_handler_def SimpleHandler_init_def IOHandler_init_def set_workdir_def)

lemma typed_handler_eq:
  "typed_handler dt = \<lparr>source_type = None, source = PNone, priv_tempfile = None,
     priv_workdir = None, data_type = Some dt, priv_validator = None\<rparr>"
  by (simp add: typed_handler_def SimpleHandler_init_def IOHandler_init_def set_workdir_def)

lemma lower_examples:
  "lower ''Boolean'' = ''boolean''" "lower ''TRUE'' = ''true''" "lower ''banana'' = ''banana''"
  "lower ''integer'' = ''integer''" "lower ''Float'' = ''float''" "lower ''complex'' = ''complex''"
  by (simp_all add: lower_def lower_char_def)

text \<open>
  C1. A \<open>SimpleHandler\<close> whose \<open>data_type\<close> is unset, or is not in \<open>LITERAL_DATA_TYPES\<close>,
  does not store the value given to \<open>set_data\<close>: the handler is unchanged and \<open>get_data\<close>
  still returns \<^verbatim>\<open>None\<close>, where \<open>IOHandler_set_data\<close> on the same handler stores it.
\<close>

theorem untyped_set_data_dropped:
  "SimpleHandler_set_data example_env untyped_handler (PStr ''abc'') = (untyped_handler, Inr ())
   \<and> SimpleHandler_get_data empty_world untyped_handler = (empty_world, Inr PNone)
   \<and> SimpleHandler_set_data example_env (typed_handler ''complex'') (PStr ''abc'')
       = (typed_handler ''complex'', Inr ())
   \<and> SimpleHandler_get_data empty_world (typed_handler ''complex'') = (empty_world, Inr PNone)
   \<and> get_data empty_world (IOHandler_set_data untyped_handler (PStr ''abc''))
       = (empty_world, Inr (PStr ''abc''))"
  by (simp add: SimpleHandler_set_data_def SimpleHandler_get_data_def get_data_def
      IOHandler_set_data_def untyped_handler_eq typed_handler_eq lower_examples example_env_def)

text \<open>
  C2, as amended. \<open>get_memory_object\<close> always raises (an \<^verbatim>\<open>Exception\<close> whose message says
  that the memory object is not implemented). \<open>set_memory_object\<close> never raises: it sets the
  source type to \<open>MEMORY\<close> and leaves the cached file name and the working directory as
  they were.
\<close>

theorem memory_object_amended:
  "get_memory_object self = Inl (PyException
       ''setmemory_object not implemented, Soeren promissed to implement at WPS Workshop on 23rd of January 2014'')
   \<and> source_type (set_memory_object self x) = Some MEMORY
   \<and> priv_tempfile (set_memory_object self x) = priv_tempfile self
   \<and> get_workdir (set_memory_object self x) = get_workdir self"
  by (simp add: get_memory_object_def set_memory_object_def get_workdir_def)

text \<open>
  The claim as first stated (\<open>set_memory_object\<close> fails and leaves the handler as it was)
  is false on a new handler: the call returns and the source type has changed.
\<close>

theorem set_memory_object_changes_state:
  "source_type new_handler = None
   \<and> source_type (set_memory_object new_handler (PStr ''obj'')) = Some MEMORY
   \<and> set_memory_object new_handler (PStr ''obj'') \<noteq> new_handler"
  by (simp add: set_memory_object_def new_handler_eq)

text \<open>
  C9. On a handler whose source type is unset (no setter has been called), \<open>get_data\<close>,
  \<open>get_stream\<close> and \<open>get_file\<close> each return \<^verbatim>\<open>None\<close> without raising, and change
  neither the world nor the handler.
\<close>

theorem unset_source_returns_none:
  assumes "source_type self = None"
  shows "get_data w self = (w, Inr PNone)
       \<and> get_stream env w self = (w, Inr PNone)
       \<and> get_file w self = (w, self, Inr PNone)"
  using assms by (simp add: get_data_def get_stream_def get_file_def)

theorem unset_source_returns_none_witness:
  "source_type new_handler = None
   \<and> get_data empty_world new_handler = (empty_world, Inr PNone)
   \<and> get_stream example_env empty_world new_handler = (empty_world, Inr PNone)
   \<and> get_file empty_world new_handler = (empty_world, new_handler, Inr PNone)"
proof -
  have n: "source_type new_handler = None" by (simp add: new_handler_eq)
  from unset_source_returns_none [OF n, of empty_world example_env] n
  show ?thesis by simp
qed

text \<open>
  C7. With a declared type that is \<^verbatim>\<open>boolean\<close> (in any letter case), \<open>set_data\<close> of a text
  \<open>t\<close> never raises: it stores \<^verbatim>\<open>True\<close> when \<open>lower t\<close> is \<^verbatim>\<open>true\<close> and \<^verbatim>\<open>False\<close> for every
  other text, and \<open>get_data\<close> returns that boolean.
\<close>

theorem boolean_set_data:
  assumes "data_type self = Some dt" and "lower dt = ''boolean''"
    and "''boolean'' \<in> set (LITERAL_DATA_TYPES env)"
  shows "SimpleHandler_set_data env self (PStr t)
           = (IOHandler_set_data self (PBool (lower t = ''true'')), Inr ())
         \<and> SimpleHandler_get_data w (IOHandler_set_data self (PBool (lower t = ''true'')))
           = (w, Inr (PBool (lower t = ''true'')))"
  using assms lower_nonempty [of dt]
  by (simp add: SimpleHandler_set_data_def SimpleHandler_get_data_def get_data_def
      IOHandler_set_data_def)

theorem boolean_set_data_witness:
  "SimpleHandler_set_data example_env (typed_handler ''Boolean'') (PStr ''TRUE'')
     = (IOHandler_set_data (typed_handler ''Boolean'') (PBool True), Inr ())
   \<and> SimpleHandler_set_data example_env (typed_handler ''Boolean'') (PStr ''banana'')
     = (IOHandler_set_data (typed_handler ''Boolean'') (PBool False), Inr ())"
proof -
  have a: "data_type (typed_handler ''Boolean'') = Some ''Boolean''"
    by (simp add: typed_handler_eq)
  have b: "lower ''Boolean'' = ''boolean''" by (rule lower_examples)
  have c: "''boolean'' \<in> set (LITERAL_DATA_TYPES example_env)"
    by (simp add: example_env_def)
  from boolean_set_data [OF a b c, of "''TRUE''"] boolean_set_data [OF a b c, of "''banana''"]
  show ?thesis by (simp add: lower_examples)
qed

text \<open>
  C8. With a declared type that is \<^verbatim>\<open>integer\<close> (or \<^verbatim>\<open>float\<close>), \<open>set_data\<close> of a text \<open>t\<close>
  raises what \<^verbatim>\<open>int(t)\<close> (or \<^verbatim>\<open>float(t)\<close>) raises, which for a text that is not a number
  is \<^verbatim>\<open>ValueError\<close>, and leaves the handler as it was. When the text is a number, the
  handler's source type becomes \<open>DATA\<close>, its source is the parsed number, and \<open>get_data\<close>
  returns that number.
\<close>

theorem numeric_set_data:
  assumes "data_type self = Some dt"
  shows "(lower dt = ''integer'' \<and> ''integer'' \<in> set (LITERAL_DATA_TYPES env) \<longrightarrow>
            SimpleHandler_set_data env self (PStr t)
              = (case py_int env (PStr t) of
                   Inl e \<Rightarrow> (self, Inl e)
                 | Inr n \<Rightarrow> (self\<lparr>source_type := Some DATA, source := PInt n\<rparr>, Inr ()))
            \<and> SimpleHandler_get_data w (fst (SimpleHandler_set_data env self (PStr t)))
              = (case py_int env (PStr t) of
                   Inl e \<Rightarrow> SimpleHandler_get_data w self
                 | Inr n \<Rightarrow> (w, Inr (PInt n))))
       \<and> (lower dt = ''float'' \<and> ''float'' \<in> set (LITERAL_DATA_TYPES env) \<longrightarrow>
            SimpleHandler_set_data env self (PStr t)
              = (case py_float env (PStr t) of
                   Inl e \<Rightarrow> (self, Inl e)
                 | Inr x \<Rightarrow> (self\<lparr>source_type := Some DATA, source := PFloat x\<rparr>, Inr ()))
            \<and> SimpleHandler_get_data w (fst (SimpleHandler_set_data env self (PStr t)))
              = (case py_float env (PStr t) of
                   Inl e \<Rightarrow> SimpleHandler_get_data w self
                 | Inr x \<Rightarrow> (w, Inr (PFloat x))))"
proof -
  have t: "truthy (data_type self)" if "lower dt = c # cs" for c cs
    using that assms lower_nonempty [of dt c cs] by simp
  have i: "SimpleHandler_set_data env self (PStr t)
             = (case py_int env (PStr t) of
                  Inl e \<Rightarrow> (self, Inl e)
                | Inr n \<Rightarrow> (self\<lparr>source_type := Some DATA, source := PInt n\<rparr>, Inr ()))"
    if "lower dt = ''integer''" "''integer'' \<in> set (LITERAL_DATA_TYPES env)"
    using that assms t
    by (simp add: SimpleHandler_set_data_def IOHandler_set_data_def split: sum.splits)
  have f: "SimpleHandler_set_data env self (PStr t)
             = (case py_float env (PStr t) of
                  Inl e \<Rightarrow> (self, Inl e)
                | Inr x \<Rightarrow> (self\<lparr>source_type := Some DATA, source := PFloat x\<rparr>, Inr ()))"
    if "lower dt = ''float''" "''float'' \<in> set (LITERAL_DATA_TYPES env)"
    using that assms t
    by (simp add: SimpleHandler_set_data_def IOHandler_set_data_def split: sum.splits)
  show ?thesis
    using i f
    by (auto simp: SimpleHandler_get_data_def get_data_def split: sum.splits)
qed

theorem numeric_set_data_witness:
  "SimpleHandler_set_data example_env (typed_handler ''integer'') (PStr ''-5'')
     = ((typed_handler ''integer'')\<lparr>source_type := Some DATA, source := PInt (- 5)\<rparr>, Inr ())
   \<and> SimpleHandler_get_data empty_world
        (fst (SimpleHandler_set_data example_env (typed_handler ''integer'') (PStr ''-5'')))
     = (empty_world, Inr (PInt (- 5)))
   \<and> SimpleHandler_set_data example_env (typed_handler ''integer'') (PStr ''1x'')
     = (typed_handler ''integer'', Inl ValueError)
   \<and> SimpleHandler_set_data example_env (typed_handler ''Float'') (PStr ''1.5'')
     = ((typed_handler ''Float'')\<lparr>source_type := Some DATA, source := PFloat (3 / 2)\<rparr>, Inr ())
   \<and> SimpleHandler_get_data empty_world
        (fst (SimpleHandler_set_data example_env (typed_handler ''Float'') (PStr ''1.5'')))
     = (empty_world, Inr (PFloat (3 / 2)))
   \<and> SimpleHandler_set_data example_env (typed_handler ''Float'') (PStr ''abc'')
     = (typed_handler ''Float'', Inl ValueError)"
proof -
  have a: "data_type (typed_handler ''integer'') = Some ''integer''"
    and b: "data_type (typed_handler ''Float'') = Some ''Float''"
    by (simp_all add: typed_handler_eq)
  have l: "''integer'' \<in> set (LITERAL_DATA_TYPES example_env)"
    "''float'' \<in> set (LITERAL_DATA_TYPES example_env)"
    by (simp_all add: example_env_def)
  have i: "py_int example_env (PStr ''-5'') = Inr (- 5)"
    "py_int example_env (PStr ''1x'') = Inl ValueError"
    by (simp_all add: example_env_def example_int_def signed_digits_def digit_value_def
        is_letter_def)
  have f: "py_float example_env (PStr ''1.5'') = Inr (3 / 2)"
    "py_float example_env (PStr ''abc'') = Inl ValueError"
    by (simp_all add: example_env_def example_float_def float_examples_def)
  have 1: "SimpleHandler_set_data example_env (typed_handler ''integer'') (PStr ''-5'')
       = ((typed_handler ''integer'')\<lparr>source_type := Some DATA, source := PInt (- 5)\<rparr>, Inr ())
     \<and> SimpleHandler_get_data empty_world
          (fst (SimpleHandler_set_data example_env (typed_handler ''integer'') (PStr ''-5'')))
       = (empty_world, Inr (PInt (- 5)))"
    using l i numeric_set_data [OF a, of example_env "''-5''" empty_world]
    by (auto simp add: lower_examples)
  have 2: "SimpleHandler_set_data example_env (typed_handler ''integer'') (PStr ''1x'')
       = (typed_handler ''integer'', Inl ValueError)"
    using l i numeric_set_data [OF a, of example_env "''1x''" empty_world]
    by (auto simp add: lower_examples)
  have 3: "SimpleHandler_set_data example_env (typed_handler ''Float'') (PStr ''1.5'')
       = ((typed_handler ''Float'')\<lparr>source_type := Some DATA, source := PFloat (3 / 2)\<rparr>, Inr ())
     \<and> SimpleHandler_get_data empty_world
          (fst (SimpleHandler_set_data example_env (typed_handler ''Float'') (PStr ''1.5'')))
       = (empty_world, Inr (PFloat (3 / 2)))"
    using l f numeric_set_data [OF b, of example_env "''1.5''" empty_world]
    by (auto simp add: lower_examples)
  have 4: "SimpleHandler_set_data example_env (typed_handler ''Float'') (PStr ''abc'')
       = (typed_handler ''Float'', Inl ValueError)"
    using l f numeric_set_data [OF b, of example_env "''abc''" empty_world]
    by (auto simp add: lower_examples)
  from 1 2 3 4 show ?thesis by blast
qed

text \<open>
  C5. With a number as the value, \<open>get_file\<close> creates a temporary file, fails with
  \<^verbatim>\<open>TypeError\<close> when writing the number, leaves the file empty and sets no cache; the next
  call creates a second file and fails again.
\<close>

theorem get_file_number_fails:
  "get_file empty_world (IOHandler_set_data new_handler (PInt 5))
     = (\<lparr>files = [(''/tmp/tmp'', [])], dirs = [], streams = []\<rparr>,
        IOHandler_set_data new_handler (PInt 5), Inl TypeError)
   \<and> get_file \<lparr>files = [(''/tmp/tmp'', [])], dirs = [], streams = []\<rparr>
        (IOHandler_set_data new_handler (PInt 5))
     = (\<lparr>files = [(''/tmp/tmpxxxxxxxx'', []), (''/tmp/tmp'', [])], dirs = [], streams = []\<rparr>,
        IOHandler_set_data new_handler (PInt 5), Inl TypeError)"
  by (simp add: get_file_def get_workdir_def new_handler_eq IOHandler_set_data_def
      mkstemp_def fresh_name_def write_file_def empty_world_def Let_def)


text \<open>
  C10. No setter clears the cache. After \<open>get_file\<close> has materialised a file \<open>p\<close> from a
  stream or a value, \<open>p\<close> holds the text of that source, the setters \<open>set_data\<close>,
  \<open>set_stream\<close> and \<open>set_file\<close> leave \<open>priv_tempfile\<close> at \<open>p\<close>, and \<open>get_file\<close> after
  \<open>set_data\<close> or \<open>set_stream\<close> returns \<open>p\<close> again without touching the world, whatever the
  new source is.
\<close>

theorem cache_survives_setters:
  assumes "source_type self = Some STREAM \<or> source_type self = Some DATA"
    and "\<not> truthy (priv_tempfile self)"
    and "get_file w self = (w1, self1, Inr (PStr p))"
  shows "priv_tempfile (IOHandler_set_data self1 x) = Some p
       \<and> priv_tempfile (set_stream self1 s) = Some p
       \<and> priv_tempfile (set_file env self1 f) = Some p
       \<and> read_file w1 p = Some (source_text w (source self))
       \<and> get_file w' (IOHandler_set_data self1 x) = (w', IOHandler_set_data self1 x, Inr (PStr p))
       \<and> get_file w' (set_stream self1 s) = (w', set_stream self1 s, Inr (PStr p))"
proof -
  from get_file_materialises [OF assms]
  have p: "p \<noteq> []" and s1: "self1 = self\<lparr>priv_tempfile := Some p\<rparr>"
    and f: "files w1 = (p, source_text w (source self)) # files w"
    by auto
  have t1: "priv_tempfile (IOHandler_set_data self1 x) = Some p"
    and t2: "priv_tempfile (set_stream self1 s) = Some p"
    and t3: "priv_tempfile (set_file env self1 f) = Some p"
    by (simp_all add: s1 IOHandler_set_data_def set_stream_def set_file_def)
  have r: "read_file w1 p = Some (source_text w (source self))"
    by (simp add: read_file_def f)
  have g1: "get_file w' (IOHandler_set_data self1 x)
              = (w', IOHandler_set_data self1 x, Inr (PStr p))"
    by (rule get_file_cached [OF _ t1 p]) (simp add: IOHandler_set_data_def)
  have g2: "get_file w' (set_stream self1 s) = (w', set_stream self1 s, Inr (PStr p))"
    by (rule get_file_cached [OF _ t2 p]) (simp add: set_stream_def)
  from t1 t2 t3 r g1 g2 show ?thesis by simp
qed

theorem cache_survives_setters_witness:
  "get_file hello_world
     (IOHandler_set_data (hello_handler\<lparr>priv_tempfile := Some ''/tmp/tmp''\<rparr>) (PStr ''new''))
     = (hello_world,
        IOHandler_set_data (hello_handler\<lparr>priv_tempfile := Some ''/tmp/tmp''\<rparr>) (PStr ''new''),
        Inr (PStr ''/tmp/tmp''))
   \<and> read_file hello_world ''/tmp/tmp'' = Some ''hello''"
proof -
  have a: "source_type hello_handler = Some STREAM \<or> source_type hello_handler = Some DATA"
    by (simp add: hello_handler_def IOHandler_set_data_def)
  have b: "\<not> truthy (priv_tempfile hello_handler)"
    by (simp add: hello_handler_def new_handler_eq IOHandler_set_data_def)
  have c: "source_text empty_world (source hello_handler) = ''hello''"
    by (simp add: source_text_def hello_handler_def IOHandler_set_data_def)
  from cache_survives_setters [OF a b hello_get_file, of "PStr ''new''" "PStr ''new''" example_env
      "''f''" hello_world] c
  show ?thesis by simp
qed

end
